theory Spec2Isabelle
  imports Complex_Main "HOL-Library.Word"
begin

section \<open>Numbers\<close>

text \<open>
  The C++ sources compute with \<^verbatim>\<open>float\<close> and \<^verbatim>\<open>double\<close>. Here a floating-point
  number is the real number it denotes and arithmetic is exact: rounding error, overflow,
  infinities, NaN and the sign of a zero are outside this development (where the C++
  prints \<^verbatim>\<open>-0.000\<close> for a negative zero, the model prints \<^verbatim>\<open>0.000\<close>). Bytes are
  \<open>8 word\<close>; \<^verbatim>\<open>int8_t\<close> is read with \<open>sint\<close>. The packet counters are C++
  \<^verbatim>\<open>int\<close>; they are integers here, far from the overflow of a 32-bit counter.
\<close>

type_synonym byte = "8 word"

text \<open>\<^verbatim>\<open>std::min(a, b)\<close> is \<^verbatim>\<open>(b < a) ? b : a\<close> and \<^verbatim>\<open>std::max(a, b)\<close> is
  \<^verbatim>\<open>(a < b) ? b : a\<close>.\<close>

definition std_min :: "real \<Rightarrow> real \<Rightarrow> real" where
  "std_min a b = (if b < a then b else a)"

definition std_max :: "real \<Rightarrow> real \<Rightarrow> real" where
  "std_max a b = (if a < b then b else a)"

text \<open>\<^verbatim>\<open>std::round\<close>: the nearest integer, halfway cases away from zero.\<close>

definition std_round :: "real \<Rightarrow> real" where
  "std_round x = (if x < 0 then of_int \<lceil>x - 1 / 2\<rceil> else of_int \<lfloor>x + 1 / 2\<rfloor>)"

text \<open>
  \<^verbatim>\<open>double round_to_places(double value, int places)\<close>; the only call sites pass
  \<open>places = 3\<close>, so the exponent is a natural number here.
\<close>

definition round_to_places :: "real \<Rightarrow> nat \<Rightarrow> real" where
  "round_to_places v places =
     (let multiplier = 10 ^ places in std_round (v * multiplier) / multiplier)"

section \<open>Data model\<close>

text \<open>
  \<^verbatim>\<open>struct TelemetryData\<close> of the console and first GUI programs; the second GUI program
  appends the actuator fields, which is the record extension below.
\<close>

record TelemetryData =
  current_engine_rpm :: real
  accel_x :: real
  accel_y :: real
  accel_z :: real
  velocity_x :: real
  velocity_y :: real
  velocity_z :: real
  speed :: real
  speed_mph :: real

record ActuatorTelemetryData = TelemetryData +
  throttle :: byte
  brake :: byte
  steering :: byte
  suspension_fl :: real
  suspension_fr :: real
  suspension_rl :: real
  suspension_rr :: real

record GForces =
  longitudinal :: real
  lateral :: real
  vertical :: real
  timestamp :: int

section \<open>Motion model\<close>

text \<open>
  \<^verbatim>\<open>calculate_g_forces\<close> is the same text in all three programs. The wall-clock reading
  (milliseconds since the epoch) is the parameter \<open>now\<close>.
\<close>

definition calculate_g_forces :: "int \<Rightarrow> 'a TelemetryData_scheme \<Rightarrow> GForces" where
  "calculate_g_forces now telemetry =
     (let G_FORCE = 9.81;
          g_longitudinal = - accel_z telemetry / G_FORCE;
          g_lateral = accel_x telemetry / G_FORCE;
          g_vertical = (accel_y telemetry / G_FORCE) + 1.0;
          g_longitudinal = std_max (- 3.0) (std_min 3.0 g_longitudinal);
          g_lateral = std_max (- 3.0) (std_min 3.0 g_lateral);
          g_vertical = std_max (- 1.0) (std_min 4.0 g_vertical)
      in \<lparr> longitudinal = round_to_places g_longitudinal 3,
           lateral = round_to_places g_lateral 3,
           vertical = round_to_places g_vertical 3,
           timestamp = now \<rparr>)"

section \<open>Packet decoder\<close>

text \<open>
  \<^verbatim>\<open>reinterpret_cast<const float*>(data)\<close> on the little-endian host: slot \<open>i\<close> is the
  four bytes from \<open>4 * i\<close>, least significant first, read as an IEEE-754 binary32
  pattern. \<open>float_of_bits\<close> gives the value of a finite pattern (subnormal when the
  exponent field is 0); the patterns with exponent field 255 are the infinities and NaNs,
  which this development does not cover.
\<close>

definition bits_at :: "byte list \<Rightarrow> nat \<Rightarrow> nat" where
  "bits_at data i =
     unat (data ! (4 * i)) + 2 ^ 8 * unat (data ! (4 * i + 1))
       + 2 ^ 16 * unat (data ! (4 * i + 2)) + 2 ^ 24 * unat (data ! (4 * i + 3))"

definition float_of_bits :: "nat \<Rightarrow> real" where
  "float_of_bits w =
     (let s = w div 2 ^ 31 mod 2;
          e = w div 2 ^ 23 mod 2 ^ 8;
          m = w mod 2 ^ 23;
          a = (if e = 0 then real m / 2 ^ 149 else real (2 ^ 23 + m) * 2 ^ e / 2 ^ 150)
      in if s = 1 then - a else a)"

definition float_at :: "byte list \<Rightarrow> nat \<Rightarrow> real" where
  "float_at data i = float_of_bits (bits_at data i)"

text \<open>
  \<^verbatim>\<open>parse_telemetry_packet(data, data_len)\<close> of the second GUI program. The null
  pointer is \<open>None\<close>. Every read below the length test is at a byte index under 308.
\<close>

definition parse_telemetry_packet :: "byte list \<Rightarrow> int \<Rightarrow> ActuatorTelemetryData option" where
  "parse_telemetry_packet data data_len =
     (if data_len < 308 then None
      else
        let vx = float_at data 8; vy = float_at data 9; vz = float_at data 10;
            spd = sqrt (vx * vx + vy * vy + vz * vz);
            base_offset = 232
        in Some \<lparr> current_engine_rpm = float_at data 4,
                  accel_x = float_at data 5,
                  accel_y = float_at data 6,
                  accel_z = float_at data 7,
                  velocity_x = vx,
                  velocity_y = vy,
                  velocity_z = vz,
                  speed = spd,
                  speed_mph = spd * 2.23694,
                  throttle = data ! (base_offset + 0),
                  brake = data ! (base_offset + 1),
                  steering = data ! (base_offset + 4),
                  suspension_fl = float_at data 17,
                  suspension_fr = float_at data 18,
                  suspension_rl = float_at data 19,
                  suspension_rr = float_at data 20 \<rparr>)"

text \<open>The console program and the first GUI program decode the motion fields only.\<close>

definition parse_telemetry_packet_legacy :: "byte list \<Rightarrow> int \<Rightarrow> TelemetryData option" where
  "parse_telemetry_packet_legacy data data_len =
     (if data_len < 308 then None
      else
        let vx = float_at data 8; vy = float_at data 9; vz = float_at data 10;
            spd = sqrt (vx * vx + vy * vy + vz * vz)
        in Some \<lparr> current_engine_rpm = float_at data 4,
                  accel_x = float_at data 5,
                  accel_y = float_at data 6,
                  accel_z = float_at data 7,
                  velocity_x = vx,
                  velocity_y = vy,
                  velocity_z = vz,
                  speed = spd,
                  speed_mph = spd * 2.23694 \<rparr>)"

section \<open>Actuation encoder\<close>

subsection \<open>Text output of numbers\<close>

fun show_nat :: "nat \<Rightarrow> string" where
  "show_nat n =
     (if n < 10 then [''0123456789'' ! n]
      else show_nat (n div 10) @ [''0123456789'' ! (n mod 10)])"

declare show_nat.simps [simp del]

definition show_int :: "int \<Rightarrow> string" where
  "show_int i = (if i < 0 then ''-'' @ show_nat (nat (- i)) else show_nat (nat i))"

text \<open>
  A \<^verbatim>\<open>double\<close> inserted into a stream in \<^verbatim>\<open>std::fixed\<close> notation with precision \<open>p\<close>
  prints as \<^verbatim>\<open>printf("%.pf")\<close> does: the value rounded to \<open>p\<close> decimals (the nearest; a
  tie goes to the even last digit), the sign when the value is negative, the integer
  digits, and a point followed by exactly \<open>p\<close> digits when \<open>p > 0\<close>.
\<close>

definition round_half_even :: "real \<Rightarrow> int" where
  "round_half_even y =
     (let f = \<lfloor>y\<rfloor>; r = y - of_int f
      in if r < 1 / 2 then f else if 1 / 2 < r then f + 1 else if even f then f else f + 1)"

definition show_fixed :: "nat \<Rightarrow> real \<Rightarrow> string" where
  "show_fixed p x =
     (let n = nat (round_half_even (\<bar>x\<bar> * 10 ^ p));
          frac = show_nat (n mod 10 ^ p)
      in (if x < 0 then ''-'' else []) @ show_nat (n div 10 ^ p)
         @ (if p = 0 then [] else ''.'' @ replicate (p - length frac) (CHR ''0'') @ frac))"

subsection \<open>The output string stream\<close>

text \<open>
  \<^verbatim>\<open>std::ostringstream\<close>: the characters written so far and the precision, which stays
  in force until the next \<^verbatim>\<open>std::setprecision\<close>. Both encoders insert
  \<^verbatim>\<open>std::fixed\<close> before the first number, so every number is in fixed notation.
\<close>

record ostringstream =
  precision :: nat
  buf :: string

definition oss_fixed :: ostringstream where
  "oss_fixed = \<lparr> precision = 6, buf = [] \<rparr>"

definition setprecision :: "nat \<Rightarrow> ostringstream \<Rightarrow> ostringstream" where
  "setprecision n oss = oss\<lparr> precision := n \<rparr>"

definition put_double :: "real \<Rightarrow> ostringstream \<Rightarrow> ostringstream" where
  "put_double x oss = oss\<lparr> buf := buf oss @ show_fixed (precision oss) x \<rparr>"

definition put_int :: "int \<Rightarrow> ostringstream \<Rightarrow> ostringstream" where
  "put_int i oss = oss\<lparr> buf := buf oss @ show_int i \<rparr>"

definition put_string :: "string \<Rightarrow> ostringstream \<Rightarrow> ostringstream" where
  "put_string s oss = oss\<lparr> buf := buf oss @ s \<rparr>"

subsection \<open>The two line formats\<close>

text \<open>
  \<open>data_string\<close> is \<^verbatim>\<open>oss.str()\<close> in \<^verbatim>\<open>send_to_arduino(g_forces, telemetry)\<close> of the
  second GUI program. \<^verbatim>\<open>telemetry.throttle / 255.0 * 100.0\<close> promotes the byte to
  \<^verbatim>\<open>double\<close>; \<^verbatim>\<open>static_cast<int>(telemetry.steering)\<close> is the signed value of the
  byte. The line ends with the character 10.
\<close>

definition data_string :: "GForces \<Rightarrow> ActuatorTelemetryData \<Rightarrow> string" where
  "data_string g_forces telemetry =
     (let oss = oss_fixed;
          oss = setprecision 3 oss;
          oss = put_double (longitudinal g_forces) oss;
          oss = put_string '','' oss;
          oss = put_double (lateral g_forces) oss;
          oss = put_string '','' oss;
          oss = put_double (vertical g_forces) oss;
          oss = put_string '','' oss;
          oss = setprecision 1 oss;
          oss = put_double (real (unat (throttle telemetry)) / 255.0 * 100.0) oss;
          oss = put_string '','' oss;
          oss = put_double (real (unat (brake telemetry)) / 255.0 * 100.0) oss;
          oss = put_string '','' oss;
          oss = put_int (sint (steering telemetry)) oss;
          oss = put_string '','' oss;
          oss = setprecision 2 oss;
          oss = put_double (suspension_fl telemetry) oss;
          oss = put_string '','' oss;
          oss = put_double (suspension_fr telemetry) oss;
          oss = put_string '','' oss;
          oss = put_double (suspension_rl telemetry) oss;
          oss = put_string '','' oss;
          oss = put_double (suspension_rr telemetry) oss;
          oss = put_string [CHR 0x0A] oss
      in buf oss)"

text \<open>
  \<open>data_string_legacy\<close> is \<^verbatim>\<open>oss.str()\<close> in \<^verbatim>\<open>send_to_arduino(g_forces)\<close> of the
  console program and of the first GUI program. Their last insertion is a C++ string
  literal of two characters: a backslash (92) and the letter \<open>n\<close>.
\<close>

definition data_string_legacy :: "GForces \<Rightarrow> string" where
  "data_string_legacy g_forces =
     (let oss = oss_fixed;
          oss = setprecision 3 oss;
          oss = put_double (longitudinal g_forces) oss;
          oss = put_string '','' oss;
          oss = put_double (lateral g_forces) oss;
          oss = put_string '','' oss;
          oss = put_double (vertical g_forces) oss;
          oss = put_string [CHR 0x5C, CHR ''n''] oss
      in buf oss)"

section \<open>Transmit sink\<close>

text \<open>
  The serial port: whether \<^verbatim>\<open>serial_handle\<close> differs from
  \<^verbatim>\<open>INVALID_HANDLE_VALUE\<close>, and the buffers handed to \<^verbatim>\<open>WriteFile\<close> so far, oldest
  first. What \<^verbatim>\<open>WriteFile\<close> does with a buffer is up to the operating system: \<open>None\<close>
  when it returns \<^verbatim>\<open>FALSE\<close>, \<open>Some n\<close> when it returns \<^verbatim>\<open>TRUE\<close> with
  \<^verbatim>\<open>bytes_written = n\<close>.
\<close>

record serial_port =
  handle_valid :: bool
  written :: "string list"

type_synonym write_file = "string \<Rightarrow> nat option"

definition write_line :: "write_file \<Rightarrow> string \<Rightarrow> serial_port \<Rightarrow> bool \<times> serial_port" where
  "write_line wfile line port =
     (let port' = port\<lparr> written := written port @ [line] \<rparr>
      in case wfile line of
           None \<Rightarrow> (False, port')
         | Some bytes_written \<Rightarrow> (bytes_written = length line, port'))"

definition send_to_arduino ::
  "write_file \<Rightarrow> GForces \<Rightarrow> ActuatorTelemetryData \<Rightarrow> serial_port \<Rightarrow> bool \<times> serial_port" where
  "send_to_arduino wfile g_forces telemetry port =
     (if \<not> handle_valid port then (False, port)
      else write_line wfile (data_string g_forces telemetry) port)"

definition send_to_arduino_legacy ::
  "write_file \<Rightarrow> GForces \<Rightarrow> serial_port \<Rightarrow> bool \<times> serial_port" where
  "send_to_arduino_legacy wfile g_forces port =
     (if \<not> handle_valid port then (False, port)
      else write_line wfile (data_string_legacy g_forces) port)"

section \<open>Ingestion loops\<close>

text \<open>
  One pass of a loop sees what \<^verbatim>\<open>recvfrom\<close> returned (\<^verbatim>\<open>SOCKET_ERROR\<close> with the code of
  \<^verbatim>\<open>WSAGetLastError\<close>, or the bytes of a datagram), the clock, and the behaviour of
  \<^verbatim>\<open>WriteFile\<close> at that moment. A loop is run on the list of the passes it makes while
  its running flag is set; another thread clears the flag. Console output and sleeping
  are left out.
\<close>

datatype recv_result = SocketError int | Datagram "byte list"

record pass =
  received :: recv_result
  clock :: int
  WriteFile :: write_file

subsection \<open>Second GUI program: worker thread and shared state\<close>

record UIState =
  is_running :: bool
  is_connected :: bool
  packet_count :: int
  last_error :: string
  current_telemetry :: ActuatorTelemetryData
  current_gforces :: GForces
  arduino_success :: bool
  is_active :: bool

record ForzaTelemetryGUI =
  ui_state :: UIState
  serial :: serial_port

text \<open>
  \<^verbatim>\<open>process_telemetry_packet(data, data_len)\<close>, called by the worker thread with the
  receive buffer and the number of bytes received. \<open>process_decoded_packet\<close> is its text
  after the test for a null frame, as a function of the frame.
\<close>

definition process_decoded_packet ::
  "write_file \<Rightarrow> int \<Rightarrow> ActuatorTelemetryData \<Rightarrow> ForzaTelemetryGUI \<Rightarrow> ForzaTelemetryGUI" where
  "process_decoded_packet wfile now telemetry app =
     (let speed_kmh = speed telemetry * 3.6;
          rpm = current_engine_rpm telemetry;
          active = (speed_kmh > 1.0 \<or> rpm > 1000);
          (g_forces, success, port) =
            (if active then
               let g_forces = calculate_g_forces now telemetry;
                   (success, port) = send_to_arduino wfile g_forces telemetry (serial app)
               in (g_forces, success, port)
             else
               let g_forces = \<lparr> longitudinal = 0.0, lateral = 0.0, vertical = 1.0,
                                timestamp = now \<rparr>;
                   (success, port) = send_to_arduino wfile g_forces telemetry (serial app)
               in (g_forces, success, port))
      in app\<lparr> serial := port,
              ui_state := (ui_state app)
                \<lparr> packet_count := packet_count (ui_state app) + 1,
                  is_connected := True,
                  current_telemetry := telemetry,
                  current_gforces := g_forces,
                  arduino_success := success,
                  is_active := active \<rparr> \<rparr>)"

definition process_telemetry_packet ::
  "write_file \<Rightarrow> int \<Rightarrow> byte list \<Rightarrow> ForzaTelemetryGUI \<Rightarrow> ForzaTelemetryGUI" where
  "process_telemetry_packet wfile now data app =
     (case parse_telemetry_packet data (int (length data)) of
        None \<Rightarrow> app
      | Some telemetry \<Rightarrow> process_decoded_packet wfile now telemetry app)"

fun telemetry_worker_thread :: "pass list \<Rightarrow> ForzaTelemetryGUI \<Rightarrow> ForzaTelemetryGUI" where
  "telemetry_worker_thread [] app = app"
| "telemetry_worker_thread (p # ps) app =
     (case received p of
        SocketError error \<Rightarrow> telemetry_worker_thread ps app
      | Datagram data \<Rightarrow>
          telemetry_worker_thread ps (process_telemetry_packet (WriteFile p) (clock p) data app))"

subsection \<open>Console program: the loop of \<^verbatim>\<open>run\<close>\<close>

record run_state =
  run_packet_count :: int
  run_serial :: serial_port

definition run_pass :: "pass \<Rightarrow> run_state \<Rightarrow> run_state" where
  "run_pass p st =
     (case received p of
        SocketError error \<Rightarrow> st
      | Datagram data \<Rightarrow>
          let st = st\<lparr> run_packet_count := run_packet_count st + 1 \<rparr>
          in case parse_telemetry_packet_legacy data (int (length data)) of
               None \<Rightarrow> st
             | Some telemetry \<Rightarrow>
                 let speed_kmh = speed telemetry * 3.6;
                     rpm = current_engine_rpm telemetry;
                     active = (speed_kmh > 1.0 \<or> rpm > 1000);
                     (g_forces, success, port) =
                       (if active then
                          let g_forces = calculate_g_forces (clock p) telemetry;
                              (success, port) =
                                send_to_arduino_legacy (WriteFile p) g_forces (run_serial st)
                          in (g_forces, success, port)
                        else
                          let g_forces = \<lparr> longitudinal = 0.0, lateral = 0.0, vertical = 1.0,
                                           timestamp = clock p \<rparr>;
                              (success, port) =
                                send_to_arduino_legacy (WriteFile p) g_forces (run_serial st)
                          in (g_forces, success, port))
                 in st\<lparr> run_serial := port \<rparr>)"

fun run_loop :: "pass list \<Rightarrow> run_state \<Rightarrow> run_state" where
  "run_loop [] st = st"
| "run_loop (p # ps) st = run_loop ps (run_pass p st)"

definition run :: "pass list \<Rightarrow> serial_port \<Rightarrow> run_state" where
  "run ps port = run_loop ps \<lparr> run_packet_count = 0, run_serial = port \<rparr>"

section \<open>The specification's formulas\<close>

text \<open>
  These definitions follow the words of the specification, not the code; the theorems
  below compare them with the code.

  Rounding half away from zero: the magnitude is rounded to the nearest integer, a tie
  upwards, and the sign is put back. To 3 decimal places: scale by 1000, round, scale back.
\<close>

definition spec_round_half_away :: "real \<Rightarrow> int" where
  "spec_round_half_away x = (if 0 \<le> x then \<lfloor>x + 1 / 2\<rfloor> else - \<lfloor>- x + 1 / 2\<rfloor>)"

definition spec_round_3dp :: "real \<Rightarrow> real" where
  "spec_round_3dp v = of_int (spec_round_half_away (v * 1000)) / 1000"

text \<open>
  The specification gives the line formats as \<^verbatim>\<open>printf\<close> format strings. Of the
  conversions, \<open>spec_sprintf\<close> knows \<^verbatim>\<open>%.Nf\<close> with a one-digit precision and
  \<^verbatim>\<open>%d\<close>; every other character is copied. A conversion whose argument is missing or
  of the other kind ends the output.
\<close>

datatype printf_arg = FloatArg real | IntArg int

definition digit_value :: "char \<Rightarrow> nat" where
  "digit_value c = of_char c - 48"

function spec_sprintf :: "string \<Rightarrow> printf_arg list \<Rightarrow> string" where
  "spec_sprintf [] args = []"
| "spec_sprintf (c # fmt) args =
     (if c = CHR ''%'' \<and> take 1 fmt = ''d'' then
        (case args of
           IntArg i # rest \<Rightarrow> show_int i @ spec_sprintf (drop 1 fmt) rest
         | _ \<Rightarrow> [])
      else if c = CHR ''%'' \<and> 3 \<le> length fmt \<and> fmt ! 0 = CHR ''.'' \<and> fmt ! 2 = CHR ''f'' then
        (case args of
           FloatArg x # rest \<Rightarrow>
             show_fixed (digit_value (fmt ! 1)) x @ spec_sprintf (drop 3 fmt) rest
         | _ \<Rightarrow> [])
      else c # spec_sprintf fmt args)"
  by pat_completeness auto
termination
  by (relation "measure (\<lambda>(fmt, args). length fmt)") auto

declare spec_sprintf.simps(2) [simp del]

text \<open>
  The extended line of section 6:
  \<^verbatim>\<open>"%.3f,%.3f,%.3f,%.1f,%.1f,%d,%.2f,%.2f,%.2f,%.2f\n"\<close> applied to the three G-forces,
  \<open>throttle/255*100\<close>, \<open>brake/255*100\<close>, the steering as a signed integer and the four
  suspension values. The legacy line: \<^verbatim>\<open>"%.3f,%.3f,%.3f\n"\<close> applied to the three
  G-forces. In both, \<^verbatim>\<open>\n\<close> is the line-break character 10.
\<close>

definition spec_extended_line :: "GForces \<Rightarrow> ActuatorTelemetryData \<Rightarrow> string" where
  "spec_extended_line g t =
     spec_sprintf (''%.3f,%.3f,%.3f,%.1f,%.1f,%d,%.2f,%.2f,%.2f,%.2f'' @ [CHR 0x0A])
       [FloatArg (longitudinal g), FloatArg (lateral g), FloatArg (vertical g),
        FloatArg (real (unat (throttle t)) / 255 * 100),
        FloatArg (real (unat (brake t)) / 255 * 100),
        IntArg (sint (steering t)),
        FloatArg (suspension_fl t), FloatArg (suspension_fr t),
        FloatArg (suspension_rl t), FloatArg (suspension_rr t)]"

definition spec_legacy_line :: "GForces \<Rightarrow> string" where
  "spec_legacy_line g =
     spec_sprintf (''%.3f,%.3f,%.3f'' @ [CHR 0x0A])
       [FloatArg (longitudinal g), FloatArg (lateral g), FloatArg (vertical g)]"

section \<open>Example inputs\<close>

text \<open>Datagrams, frames, ports and \<^verbatim>\<open>WriteFile\<close> behaviours at which the theorems
  below are evaluated.\<close>

definition scenario_datagram :: "byte list" where
  "scenario_datagram =
     (replicate 308 0)[71 := 0x3F, 74 := 0x80, 75 := 0x3E, 78 := 0x40, 79 := 0x3F,
                       82 := 0x80, 83 := 0x3F, 232 := 255, 233 := 128, 236 := 200]"

definition scenario_frame :: ActuatorTelemetryData where
  "scenario_frame =
     \<lparr> current_engine_rpm = 0, accel_x = 0, accel_y = 0, accel_z = 0,
       velocity_x = 0, velocity_y = 0, velocity_z = 0, speed = 0, speed_mph = 0,
       throttle = 255, brake = 128, steering = 200,
       suspension_fl = 0.5, suspension_fr = 0.25, suspension_rl = 0.75, suspension_rr = 1 \<rparr>"

definition neutral_sample :: "int \<Rightarrow> GForces" where
  "neutral_sample now = \<lparr> longitudinal = 0, lateral = 0, vertical = 1, timestamp = now \<rparr>"

definition open_port :: serial_port where
  "open_port = \<lparr> handle_valid = True, written = [] \<rparr>"

definition closed_port :: serial_port where
  "closed_port = \<lparr> handle_valid = False, written = [] \<rparr>"

definition write_all :: write_file where
  "write_all line = Some (length line)"

definition write_nothing :: write_file where
  "write_nothing line = Some 0"

definition write_fails :: write_file where
  "write_fails line = None"

definition rest_datagram :: "byte list" where
  "rest_datagram = (replicate 308 0)[18 := 0x7A, 19 := 0x44]"

definition braking_datagram :: "byte list" where
  "braking_datagram =
     (replicate 308 0)[28 := 0xC3, 29 := 0xF5, 30 := 0x1C, 31 := 0xC1, 34 := 0x20, 35 := 0x41]"

definition braking_frame :: ActuatorTelemetryData where
  "braking_frame =
     \<lparr> current_engine_rpm = 0, accel_x = 0, accel_y = 0, accel_z = float_of_bits 0xC11CF5C3,
       velocity_x = 10, velocity_y = 0, velocity_z = 0, speed = 10, speed_mph = 10 * 2.23694,
       throttle = 0, brake = 0, steering = 0,
       suspension_fl = 0, suspension_fr = 0, suspension_rl = 0, suspension_rr = 0 \<rparr>"

definition fresh_gui :: "serial_port \<Rightarrow> ForzaTelemetryGUI" where
  "fresh_gui port =
     \<lparr> ui_state =
         \<lparr> is_running = True, is_connected = False, packet_count = 0, last_error = [],
           current_telemetry =
             \<lparr> current_engine_rpm = 0, accel_x = 0, accel_y = 0, accel_z = 0,
               velocity_x = 0, velocity_y = 0, velocity_z = 0, speed = 0, speed_mph = 0,
               throttle = 0, brake = 0, steering = 0,
               suspension_fl = 0, suspension_fr = 0, suspension_rl = 0, suspension_rr = 0 \<rparr>,
           current_gforces = \<lparr> longitudinal = 0, lateral = 0, vertical = 0, timestamp = 0 \<rparr>,
           arduino_success = False, is_active = False \<rparr>,
       serial = port \<rparr>"

definition boundary_frame :: "real \<Rightarrow> real \<Rightarrow> ActuatorTelemetryData" where
  "boundary_frame spd rpm =
     \<lparr> current_engine_rpm = rpm, accel_x = 0, accel_y = 0, accel_z = - 9.81,
       velocity_x = spd, velocity_y = 0, velocity_z = 0, speed = spd, speed_mph = spd * 2.23694,
       throttle = 255, brake = 128, steering = 200,
       suspension_fl = 0, suspension_fr = 0, suspension_rl = 0, suspension_rr = 0 \<rparr>"

definition rest_frame :: ActuatorTelemetryData where
  "rest_frame =
     \<lparr> current_engine_rpm = 1000, accel_x = 0, accel_y = 0, accel_z = 0,
       velocity_x = 0, velocity_y = 0, velocity_z = 0, speed = 0, speed_mph = 0,
       throttle = 0, brake = 0, steering = 0,
       suspension_fl = 0, suspension_fr = 0, suspension_rl = 0, suspension_rr = 0 \<rparr>"

definition rest_frame_legacy :: TelemetryData where
  "rest_frame_legacy =
     \<lparr> current_engine_rpm = 1000, accel_x = 0, accel_y = 0, accel_z = 0,
       velocity_x = 0, velocity_y = 0, velocity_z = 0, speed = 0, speed_mph = 0 \<rparr>"

definition fresh_run :: "serial_port \<Rightarrow> run_state" where
  "fresh_run port = \<lparr> run_packet_count = 0, run_serial = port \<rparr>"

section \<open>Properties of the model\<close>

subsection \<open>Rounding and clamping\<close>

lemma std_round_mono: "x \<le> y \<Longrightarrow> std_round x \<le> std_round y"
  unfolding std_round_def
  by (auto intro!: ceiling_mono floor_mono) linarith

lemma std_round_of_int: "std_round (of_int k) = of_int k"
  unfolding std_round_def by (simp; linarith)

lemma std_clamp_eq: "std_max lo (std_min hi v) = max lo (min hi v)"
  by (simp add: std_max_def std_min_def max_def min_def)

lemma round_to_places_bounds:
  assumes "of_int lo / 1000 \<le> v" "v \<le> of_int hi / 1000"
  shows "of_int lo / 1000 \<le> round_to_places v 3 \<and> round_to_places v 3 \<le> of_int hi / 1000"
proof -
  have a: "of_int lo \<le> v * 1000" and b: "v * 1000 \<le> of_int hi"
    using assms by (simp_all add: field_simps)
  have "std_round (of_int lo) \<le> std_round (v * 1000)" 
    using a by (rule std_round_mono)
  moreover have "std_round (v * 1000) \<le> std_round (of_int hi)"
    using b by (rule std_round_mono)
  ultimately show ?thesis
    by (simp add: round_to_places_def std_round_of_int field_simps)
qed

lemma clamped_rounded_range:
  assumes "lo \<le> hi"
  shows "of_int lo \<le> round_to_places (std_max (of_int lo) (std_min (of_int hi) v)) 3
       \<and> round_to_places (std_max (of_int lo) (std_min (of_int hi) v)) 3 \<le> of_int hi"
proof -
  let ?c = "std_max (of_int lo) (std_min (of_int hi) v)"
  have "of_int lo \<le> ?c" "?c \<le> of_int hi"
    using assms by (simp_all add: std_clamp_eq)
  then have "of_int (lo * 1000) / 1000 \<le> ?c" "?c \<le> of_int (hi * 1000) / 1000"
    by simp_all
  from round_to_places_bounds [OF this] show ?thesis by simp
qed

lemma calculate_g_forces_sel:
  "longitudinal (calculate_g_forces now t) =
     round_to_places (std_max (- 3) (std_min 3 (- accel_z t / 9.81))) 3"
  "lateral (calculate_g_forces now t) =
     round_to_places (std_max (- 3) (std_min 3 (accel_x t / 9.81))) 3"
  "vertical (calculate_g_forces now t) =
     round_to_places (std_max (- 1) (std_min 4 (accel_y t / 9.81 + 1))) 3"
  "timestamp (calculate_g_forces now t) = now"
  by (simp_all add: calculate_g_forces_def Let_def)

lemma std_round_spec: "std_round x = of_int (spec_round_half_away x)"
  unfolding std_round_def spec_round_half_away_def
  by (auto simp: ceiling_def)

lemma round_to_places_spec: "round_to_places v 3 = spec_round_3dp v"
  by (simp add: round_to_places_def spec_round_3dp_def std_round_spec)

lemma spec_round_half_away_nearest:
  "\<bar>of_int (spec_round_half_away x) - x\<bar> \<le> 1 / 2"
proof (cases "0 \<le> x")
  case True
  define k :: real where "k = of_int \<lfloor>x + 1 / 2\<rfloor>"
  have "k \<le> x + 1 / 2" "x + 1 / 2 < k + 1"
    unfolding k_def by linarith+
  then have "\<bar>k - x\<bar> \<le> 1 / 2" by arith
  with True show ?thesis by (simp add: spec_round_half_away_def k_def)
next
  case False
  define k :: real where "k = of_int \<lfloor>- x + 1 / 2\<rfloor>"
  have "k \<le> - x + 1 / 2" "- x + 1 / 2 < k + 1"
    unfolding k_def by linarith+
  then have "\<bar>- k - x\<bar> \<le> 1 / 2" by arith
  with False show ?thesis by (simp add: spec_round_half_away_def k_def)
qed

lemma spec_round_half_away_tie:
  assumes "\<bar>of_int (spec_round_half_away x) - x\<bar> = 1 / 2"
  shows "\<bar>x\<bar> < \<bar>of_int (spec_round_half_away x)\<bar>"
proof (cases "0 \<le> x")
  case True
  define k :: real where "k = of_int \<lfloor>x + 1 / 2\<rfloor>"
  have "x + 1 / 2 < k + 1"
    unfolding k_def by linarith
  moreover have "\<bar>k - x\<bar> = 1 / 2"
    using assms True by (simp add: spec_round_half_away_def k_def)
  ultimately have "\<bar>x\<bar> < \<bar>k\<bar>" using True by arith
  with True show ?thesis by (simp add: spec_round_half_away_def k_def)
next
  case False
  define k :: real where "k = of_int \<lfloor>- x + 1 / 2\<rfloor>"
  have "- x + 1 / 2 < k + 1"
    unfolding k_def by linarith
  moreover have "\<bar>- k - x\<bar> = 1 / 2"
    using assms False by (simp add: spec_round_half_away_def k_def)
  ultimately have "\<bar>x\<bar> < \<bar>- k\<bar>" using False by arith
  with False show ?thesis by (simp add: spec_round_half_away_def k_def)
qed

subsection \<open>Number printing and the two lines\<close>

lemma digit_chars: "n < 10 \<Longrightarrow> ''0123456789'' ! n \<in> set ''0123456789''"
  by (rule nth_mem) simp

lemma show_nat_chars: "set (show_nat n) \<subseteq> set ''0123456789''"
proof (induction n rule: show_nat.induct)
  case (1 n)
  show ?case
  proof (cases "n < 10")
    case True
    then have "show_nat n = [''0123456789'' ! n]" by (subst show_nat.simps) simp
    with digit_chars [OF True] show ?thesis by simp
  next
    case False
    then have e: "show_nat n = show_nat (n div 10) @ [''0123456789'' ! (n mod 10)]"
      by (subst show_nat.simps) simp
    have "n mod 10 < 10" by simp
    from digit_chars [OF this] 1 [OF False] show ?thesis unfolding e by simp
  qed
qed

lemma show_nat_nonempty: "show_nat n \<noteq> []"
  by (subst show_nat.simps) simp

lemma show_nat_length: "n < 10 ^ k \<Longrightarrow> 0 < k \<Longrightarrow> length (show_nat n) \<le> k"
proof (induction n arbitrary: k rule: show_nat.induct)
  case (1 n)
  show ?case
  proof (cases "n < 10")
    case True
    then have "show_nat n = [''0123456789'' ! n]" by (subst show_nat.simps) simp
    with 1(3) show ?thesis by simp
  next
    case False
    then have e: "show_nat n = show_nat (n div 10) @ [''0123456789'' ! (n mod 10)]"
      by (subst show_nat.simps) simp
    obtain j where k: "k = Suc j" using 1(3) by (cases k) auto
    have "j \<noteq> 0" using False 1(2) k by (cases j) auto
    moreover have "n div 10 < 10 ^ j" using 1(2) k by (simp add: less_mult_imp_div_less mult.commute)
    ultimately have "length (show_nat (n div 10)) \<le> j"
      using 1(1) [OF False, of j] by simp
    then show ?thesis unfolding e k by simp
  qed
qed

lemma show_int_chars:
  assumes "c \<in> set (show_int i)"
  shows "c = CHR ''-'' \<or> c \<in> set ''0123456789''"
proof (cases "i < 0")
  case True
  with assms have "c = CHR ''-'' \<or> c \<in> set (show_nat (nat (- i)))"
    by (simp add: show_int_def)
  then show ?thesis using show_nat_chars by blast
next
  case False
  with assms have "c \<in> set (show_nat (nat i))"
    by (simp add: show_int_def)
  then show ?thesis using show_nat_chars by blast
qed

lemma show_fixed_chars:
  assumes "c \<in> set (show_fixed p x)"
  shows "c = CHR ''-'' \<or> c = CHR ''.'' \<or> c \<in> set ''0123456789''"
proof -
  define n where "n = nat (round_half_even (\<bar>x\<bar> * 10 ^ p))"
  from assms have "c = CHR ''-'' \<or> c = CHR ''.'' \<or> c = CHR ''0''
      \<or> c \<in> set (show_nat (n div 10 ^ p)) \<or> c \<in> set (show_nat (n mod 10 ^ p))"
    unfolding show_fixed_def Let_def n_def [symmetric]
    by (simp split: if_splits) blast+
  then show ?thesis using show_nat_chars by fastforce
qed

lemma show_fixed_fraction:
  assumes "0 < p"
  shows "\<exists>whole frac. show_fixed p x = whole @ ''.'' @ frac \<and> length frac = p \<and> whole \<noteq> []
     \<and> CHR ''.'' \<notin> set whole \<and> CHR ''.'' \<notin> set frac"
proof -
  define n where "n = nat (round_half_even (\<bar>x\<bar> * 10 ^ p))"
  define whole where "whole = (if x < 0 then ''-'' else []) @ show_nat (n div 10 ^ p)"
  define digs where "digs = show_nat (n mod 10 ^ p)"
  define frac where "frac = replicate (p - length digs) (CHR ''0'') @ digs"
  have nodot: "CHR ''.'' \<notin> set (show_nat m)" for m
    using show_nat_chars [of m] by auto
  have "n mod 10 ^ p < 10 ^ p" by simp
  then have "length digs \<le> p"
    unfolding digs_def using assms by (rule show_nat_length)
  then have "length frac = p" by (simp add: frac_def)
  moreover have "show_fixed p x = whole @ ''.'' @ frac"
    using assms by (simp add: show_fixed_def Let_def whole_def frac_def digs_def n_def)
  moreover have "whole \<noteq> []" by (simp add: whole_def show_nat_nonempty)
  moreover have "CHR ''.'' \<notin> set whole" by (simp add: whole_def nodot)
  moreover have "CHR ''.'' \<notin> set frac" by (simp add: frac_def digs_def nodot)
  ultimately show ?thesis by blast
qed

lemma replicate_unfold: "replicate (numeral k) c = c # replicate (numeral k - 1) c"
  by (simp add: numeral_eq_Suc)

lemmas show_eval = show_fixed_def show_int_def round_half_even_def show_nat.simps
  replicate_unfold

lemma data_string_eq:
  "data_string g t =
     show_fixed 3 (longitudinal g) @ '','' @ show_fixed 3 (lateral g) @ '','' @
     show_fixed 3 (vertical g) @ '','' @
     show_fixed 1 (real (unat (throttle t)) / 255 * 100) @ '','' @
     show_fixed 1 (real (unat (brake t)) / 255 * 100) @ '','' @
     show_int (sint (steering t)) @ '','' @
     show_fixed 2 (suspension_fl t) @ '','' @ show_fixed 2 (suspension_fr t) @ '','' @
     show_fixed 2 (suspension_rl t) @ '','' @ show_fixed 2 (suspension_rr t) @ [CHR 0x0A]"
  by (simp add: data_string_def oss_fixed_def setprecision_def put_double_def put_int_def
      put_string_def)

lemma data_string_legacy_eq:
  "data_string_legacy g =
     show_fixed 3 (longitudinal g) @ '','' @ show_fixed 3 (lateral g) @ '','' @
     show_fixed 3 (vertical g) @ [CHR 0x5C, CHR ''n'']"
  by (simp add: data_string_legacy_def oss_fixed_def setprecision_def put_double_def
      put_string_def)

lemma spec_extended_line_eq:
  "spec_extended_line g t =
     show_fixed 3 (longitudinal g) @ '','' @ show_fixed 3 (lateral g) @ '','' @
     show_fixed 3 (vertical g) @ '','' @
     show_fixed 1 (real (unat (throttle t)) / 255 * 100) @ '','' @
     show_fixed 1 (real (unat (brake t)) / 255 * 100) @ '','' @
     show_int (sint (steering t)) @ '','' @
     show_fixed 2 (suspension_fl t) @ '','' @ show_fixed 2 (suspension_fr t) @ '','' @
     show_fixed 2 (suspension_rl t) @ '','' @ show_fixed 2 (suspension_rr t) @ [CHR 0x0A]"
  by (simp add: spec_extended_line_def spec_sprintf.simps(2) digit_value_def)

lemma spec_legacy_line_eq:
  "spec_legacy_line g =
     show_fixed 3 (longitudinal g) @ '','' @ show_fixed 3 (lateral g) @ '','' @
     show_fixed 3 (vertical g) @ [CHR 0x0A]"
  by (simp add: spec_legacy_line_def spec_sprintf.simps(2) digit_value_def)

lemma show_fixed_no_separator:
  "CHR '','' \<notin> set (show_fixed p x)" "CHR 0x0A \<notin> set (show_fixed p x)"
  using show_fixed_chars [of "CHR '',''" p x] show_fixed_chars [of "CHR 0x0A" p x]
  by auto

lemma show_int_no_separator:
  "CHR '','' \<notin> set (show_int i)" "CHR 0x0A \<notin> set (show_int i)"
  using show_int_chars [of "CHR '',''" i] show_int_chars [of "CHR 0x0A" i]
  by auto

lemma filter_no_comma:
  "filter (\<lambda>c. c = CHR '','') (show_fixed p x) = []"
  "filter (\<lambda>c. c = CHR '','') (show_int i) = []"
  using show_fixed_no_separator(1) [of p x] show_int_no_separator(1) [of i]
  by (auto simp: filter_empty_conv)

lemma data_string_shape:
  "\<exists>body. data_string g t = body @ [CHR 0x0A] \<and> CHR 0x0A \<notin> set body
     \<and> length (filter (\<lambda>c. c = CHR '','') body) = 9"
proof -
  define body where "body =
     show_fixed 3 (longitudinal g) @ '','' @ show_fixed 3 (lateral g) @ '','' @
     show_fixed 3 (vertical g) @ '','' @
     show_fixed 1 (real (unat (throttle t)) / 255 * 100) @ '','' @
     show_fixed 1 (real (unat (brake t)) / 255 * 100) @ '','' @
     show_int (sint (steering t)) @ '','' @
     show_fixed 2 (suspension_fl t) @ '','' @ show_fixed 2 (suspension_fr t) @ '','' @
     show_fixed 2 (suspension_rl t) @ '','' @ show_fixed 2 (suspension_rr t)"
  have "data_string g t = body @ [CHR 0x0A]"
    by (simp add: data_string_eq body_def)
  moreover have "CHR 0x0A \<notin> set body"
    by (simp add: body_def show_fixed_no_separator show_int_no_separator)
  moreover have "length (filter (\<lambda>c. c = CHR '','') body) = 9"
    by (simp add: body_def filter_no_comma)
  ultimately show ?thesis by blast
qed

lemma data_string_nonempty: "data_string g t \<noteq> []" "data_string_legacy g \<noteq> []"
  by (simp_all add: data_string_eq data_string_legacy_eq)

lemma neutral_fields: "show_fixed 3 0 = ''0.000''" "show_fixed 3 1 = ''1.000''"
  by (simp_all add: show_eval)

lemma neutral_legacy_line:
  "data_string_legacy \<lparr> longitudinal = 0, lateral = 0, vertical = 1, timestamp = now \<rparr>
     = ''0.000,0.000,1.000'' @ [CHR 0x5C, CHR ''n'']"
  unfolding data_string_legacy_eq by (simp add: show_eval)

subsection \<open>Decoder, sink and loops\<close>

lemma parse_telemetry_packet_Some:
  assumes "parse_telemetry_packet data len = Some t"
  shows "308 \<le> len" "throttle t = data ! 232" "brake t = data ! 233" "steering t = data ! 236"
    "speed t = sqrt (velocity_x t * velocity_x t + velocity_y t * velocity_y t
                     + velocity_z t * velocity_z t)"
    "current_engine_rpm t = float_at data 4" "accel_z t = float_at data 7"
  using assms by (auto simp: parse_telemetry_packet_def Let_def split: if_splits)

lemma parse_telemetry_packet_suspension:
  assumes "parse_telemetry_packet data len = Some t"
  shows "suspension_fl t = float_at data 17" "suspension_fr t = float_at data 18"
    "suspension_rl t = float_at data 19" "suspension_rr t = float_at data 20"
  using assms by (auto simp: parse_telemetry_packet_def Let_def split: if_splits)

lemma write_line_simps:
  "fst (write_line wfile line port) = (wfile line = Some (length line))"
  "snd (write_line wfile line port) = port\<lparr> written := written port @ [line] \<rparr>"
  by (auto simp: write_line_def Let_def split: option.splits)

lemma process_decoded_packet_sel:
  "is_active (ui_state (process_decoded_packet wfile now t app))
     = (speed t * 3.6 > 1.0 \<or> current_engine_rpm t > 1000)"
  "current_gforces (ui_state (process_decoded_packet wfile now t app))
     = (if speed t * 3.6 > 1.0 \<or> current_engine_rpm t > 1000 then calculate_g_forces now t
        else \<lparr> longitudinal = 0, lateral = 0, vertical = 1, timestamp = now \<rparr>)"
  "current_telemetry (ui_state (process_decoded_packet wfile now t app)) = t"
  "packet_count (ui_state (process_decoded_packet wfile now t app))
     = packet_count (ui_state app) + 1"
  "serial (process_decoded_packet wfile now t app)
     = snd (send_to_arduino wfile
         (if speed t * 3.6 > 1.0 \<or> current_engine_rpm t > 1000 then calculate_g_forces now t
          else \<lparr> longitudinal = 0, lateral = 0, vertical = 1, timestamp = now \<rparr>) t (serial app))"
  "arduino_success (ui_state (process_decoded_packet wfile now t app))
     = fst (send_to_arduino wfile
         (if speed t * 3.6 > 1.0 \<or> current_engine_rpm t > 1000 then calculate_g_forces now t
          else \<lparr> longitudinal = 0, lateral = 0, vertical = 1, timestamp = now \<rparr>) t (serial app))"
  by (simp_all add: process_decoded_packet_def Let_def split_beta)

lemma process_telemetry_packet_decoded:
  "parse_telemetry_packet data (int (length data)) = Some t \<Longrightarrow>
     process_telemetry_packet wfile now data app = process_decoded_packet wfile now t app"
  by (simp add: process_telemetry_packet_def)

lemma run_pass_decoded:
  assumes "parse_telemetry_packet_legacy data (int (length data)) = Some t"
  shows "run_serial (run_pass \<lparr> received = Datagram data, clock = now, WriteFile = wfile \<rparr> st)
     = snd (send_to_arduino_legacy wfile
         (if speed t * 3.6 > 1.0 \<or> current_engine_rpm t > 1000 then calculate_g_forces now t
          else \<lparr> longitudinal = 0, lateral = 0, vertical = 1, timestamp = now \<rparr>)
         (run_serial st))"
  using assms by (simp add: run_pass_def Let_def split_beta)

lemma run_pass_counts:
  "run_packet_count (run_pass p st)
     = run_packet_count st + (case received p of Datagram data \<Rightarrow> 1 | SocketError e \<Rightarrow> 0)"
  by (simp add: run_pass_def Let_def split_beta split: recv_result.splits option.splits)

lemma run_loop_counts:
  "run_packet_count (run_loop ps st)
     = run_packet_count st
       + (\<Sum>p\<leftarrow>ps. case received p of Datagram data \<Rightarrow> 1 | SocketError e \<Rightarrow> 0)"
  by (induction ps arbitrary: st) (simp_all add: run_pass_counts)

lemma worker_thread_counts:
  "packet_count (ui_state (telemetry_worker_thread ps app))
     = packet_count (ui_state app)
       + (\<Sum>p\<leftarrow>ps. case received p of
              Datagram data \<Rightarrow> if length data < 308 then 0 else 1
            | SocketError e \<Rightarrow> 0)"
proof (induction ps arbitrary: app)
  case Nil
  show ?case by simp
next
  case (Cons p ps)
  have step: "packet_count (ui_state (process_telemetry_packet wfile now data app))
      = packet_count (ui_state app) + (if length data < 308 then 0 else 1)"
    for wfile now data
    by (simp add: process_telemetry_packet_def parse_telemetry_packet_def Let_def
        process_decoded_packet_sel)
  show ?case
    by (cases "received p") (simp_all add: Cons.IH step)
qed

subsection \<open>The example inputs\<close>

lemma float_at_scenario:
  "float_at scenario_datagram 4 = 0" "float_at scenario_datagram 5 = 0"
  "float_at scenario_datagram 6 = 0" "float_at scenario_datagram 7 = 0"
  "float_at scenario_datagram 8 = 0" "float_at scenario_datagram 9 = 0"
  "float_at scenario_datagram 10 = 0" "float_at scenario_datagram 17 = 1 / 2"
  "float_at scenario_datagram 18 = 1 / 4" "float_at scenario_datagram 19 = 3 / 4"
  "float_at scenario_datagram 20 = 1"
  by (simp_all add: scenario_datagram_def float_at_def bits_at_def float_of_bits_def)

lemma parse_scenario_datagram:
  "parse_telemetry_packet scenario_datagram 308 = Some scenario_frame"
  by (simp add: parse_telemetry_packet_def float_at_scenario scenario_frame_def)
    (simp add: scenario_datagram_def)

lemma scenario_line:
  "data_string (neutral_sample now) scenario_frame =
     ''0.000,0.000,1.000,100.0,50.2,-56,0.50,0.25,0.75,1.00'' @ [CHR 0x0A]"
  unfolding data_string_eq
  by (simp add: neutral_sample_def scenario_frame_def show_eval)

lemma float_at_rest:
  "float_at rest_datagram 4 = 1000" "float_at rest_datagram 5 = 0"
  "float_at rest_datagram 6 = 0" "float_at rest_datagram 7 = 0"
  "float_at rest_datagram 8 = 0" "float_at rest_datagram 9 = 0"
  "float_at rest_datagram 10 = 0" "float_at rest_datagram 17 = 0"
  "float_at rest_datagram 18 = 0" "float_at rest_datagram 19 = 0"
  "float_at rest_datagram 20 = 0"
  by (simp_all add: rest_datagram_def float_at_def bits_at_def float_of_bits_def)

lemma parse_rest_datagram:
  "parse_telemetry_packet rest_datagram (int (length rest_datagram)) = Some rest_frame"
  "parse_telemetry_packet_legacy rest_datagram (int (length rest_datagram))
     = Some rest_frame_legacy"
proof -
  have l: "int (length rest_datagram) = 308" by (simp add: rest_datagram_def)
  show "parse_telemetry_packet rest_datagram (int (length rest_datagram)) = Some rest_frame"
    unfolding l
    by (simp add: parse_telemetry_packet_def float_at_rest rest_frame_def)
      (simp add: rest_datagram_def)
  show "parse_telemetry_packet_legacy rest_datagram (int (length rest_datagram))
     = Some rest_frame_legacy"
    unfolding l
    by (simp add: parse_telemetry_packet_legacy_def float_at_rest rest_frame_legacy_def)
qed

lemma float_at_braking:
  "float_at braking_datagram 4 = 0" "float_at braking_datagram 5 = 0"
  "float_at braking_datagram 6 = 0" "float_at braking_datagram 7 = float_of_bits 0xC11CF5C3"
  "float_at braking_datagram 8 = 10" "float_at braking_datagram 9 = 0"
  "float_at braking_datagram 10 = 0" "float_at braking_datagram 17 = 0"
  "float_at braking_datagram 18 = 0" "float_at braking_datagram 19 = 0"
  "float_at braking_datagram 20 = 0"
  by (simp_all add: braking_datagram_def float_at_def bits_at_def float_of_bits_def)

lemma parse_braking_datagram:
  "parse_telemetry_packet braking_datagram (int (length braking_datagram)) = Some braking_frame"
proof -
  have l: "int (length braking_datagram) = 308" by (simp add: braking_datagram_def)
  have s: "sqrt 100 = 10" using real_sqrt_abs2 [of 10] by simp
  show ?thesis
    unfolding l
    by (simp add: parse_telemetry_packet_def float_at_braking braking_frame_def s)
      (simp add: braking_datagram_def)
qed

section \<open>The claims\<close>

subsection \<open>C1: the formulas of the motion model\<close>

text \<open>
  C1, as stated: the longitudinal component is \<open>-accel.longitudinal / 9.81\<close> rounded to 3
  places. It fails for a frame with longitudinal acceleration \<open>-1000\<close>: the quotient is
  about \<open>101.937\<close>, the code returns \<open>3\<close>.
\<close>

theorem C1_unclamped_counterexample:
  "longitudinal (calculate_g_forces 0
      \<lparr> current_engine_rpm = 2000, accel_x = 0, accel_y = 0, accel_z = - 1000,
        velocity_x = 0, velocity_y = 0, velocity_z = 0, speed = 0, speed_mph = 0 \<rparr>)
   \<noteq> spec_round_3dp (- (- 1000) / 9.81)"
  by (simp add: calculate_g_forces_sel std_max_def std_min_def round_to_places_def
      std_round_def spec_round_3dp_def spec_round_half_away_def)

text \<open>
  C1, amended: for every frame the motion model computes
  \<open>-accel.longitudinal / 9.81\<close>, \<open>accel.lateral / 9.81\<close> and
  \<open>accel.vertical / 9.81 + 1.0\<close>, clamps the first two to \<open>[-3, 3]\<close> and the third to
  \<open>[-1, 4]\<close>, and rounds each to 3 decimal places, half away from zero. With longitudinal
  acceleration \<open>-9.81\<close> (also with the nearest binary32 number, the pattern \<open>C11CF5C3\<close>)
  and the other two accelerations zero the sample is \<open>{1.000, 0.000, 1.000}\<close>.
\<close>

theorem C1_motion_model_clamps_then_rounds:
  "longitudinal (calculate_g_forces now t) =
     spec_round_3dp (max (- 3) (min 3 (- accel_z t / 9.81)))
   \<and> lateral (calculate_g_forces now t) = spec_round_3dp (max (- 3) (min 3 (accel_x t / 9.81)))
   \<and> vertical (calculate_g_forces now t) =
       spec_round_3dp (max (- 1) (min 4 (accel_y t / 9.81 + 1.0)))
   \<and> calculate_g_forces now (t\<lparr> accel_x := 0, accel_y := 0, accel_z := - 9.81 \<rparr>)
       = \<lparr> longitudinal = 1, lateral = 0, vertical = 1, timestamp = now \<rparr>
   \<and> calculate_g_forces now
         (t\<lparr> accel_x := 0, accel_y := 0, accel_z := float_of_bits 0xC11CF5C3 \<rparr>)
       = \<lparr> longitudinal = 1, lateral = 0, vertical = 1, timestamp = now \<rparr>"
proof -
  have a: "calculate_g_forces now (t\<lparr> accel_x := 0, accel_y := 0, accel_z := - 9.81 \<rparr>)
       = \<lparr> longitudinal = 1, lateral = 0, vertical = 1, timestamp = now \<rparr>"
    by (simp add: calculate_g_forces_def std_max_def std_min_def round_to_places_def
        std_round_def)
  have f: "float_of_bits 0xC11CF5C3 = - 10286531 / 1048576"
    by (simp add: float_of_bits_def)
  have b: "calculate_g_forces now
         (t\<lparr> accel_x := 0, accel_y := 0, accel_z := float_of_bits 0xC11CF5C3 \<rparr>)
       = \<lparr> longitudinal = 1, lateral = 0, vertical = 1, timestamp = now \<rparr>"
    unfolding f
    by (simp add: calculate_g_forces_def std_max_def std_min_def round_to_places_def
        std_round_def)
  show ?thesis
    using a b by (simp add: calculate_g_forces_sel std_clamp_eq round_to_places_spec)
qed

text \<open>
  C1 at a datagram whose longitudinal acceleration field is the binary32 pattern nearest
  to \<open>-9.81\<close> and whose velocity is 10 m/s, which makes the frame active: the handler
  publishes the sample \<open>{1.000, 0.000, 1.000}\<close>.
\<close>

theorem C1_motion_model_clamps_then_rounds_witness:
  "parse_telemetry_packet braking_datagram (int (length braking_datagram)) = Some braking_frame
   \<and> speed braking_frame * 3.6 > 1.0
   \<and> calculate_g_forces 0 braking_frame
       = \<lparr> longitudinal = 1, lateral = 0, vertical = 1, timestamp = 0 \<rparr>
   \<and> current_gforces (ui_state (process_telemetry_packet write_all 0 braking_datagram
         (fresh_gui open_port)))
       = \<lparr> longitudinal = 1, lateral = 0, vertical = 1, timestamp = 0 \<rparr>"
proof -
  have u: "braking_frame\<lparr> accel_x := 0, accel_y := 0, accel_z := float_of_bits 0xC11CF5C3 \<rparr>
      = braking_frame"
    by (simp add: braking_frame_def)
  have g: "calculate_g_forces 0 braking_frame
       = \<lparr> longitudinal = 1, lateral = 0, vertical = 1, timestamp = 0 \<rparr>"
    using C1_motion_model_clamps_then_rounds [of 0 braking_frame] unfolding u by blast
  have a: "speed braking_frame * 3.6 > 1.0" by (simp add: braking_frame_def)
  show ?thesis
    using parse_braking_datagram g a
    by (simp add: process_telemetry_packet_decoded process_decoded_packet_sel)
qed

subsection \<open>C2: the clamp ranges\<close>

text \<open>
  C2. Whatever the accelerations in the frame, the sample computed by the motion model has
  its longitudinal and lateral components in \<open>[-3, 3]\<close> and its vertical component in
  \<open>[-1, 4]\<close>; a longitudinal acceleration of \<open>-1000\<close> gives the longitudinal component
  \<open>3\<close>. The sample that the frame handler publishes, computed or neutral, is in the same
  ranges.
\<close>

theorem C2_clamp_invariants:
  "- 3 \<le> longitudinal (calculate_g_forces now t) \<and> longitudinal (calculate_g_forces now t) \<le> 3
   \<and> - 3 \<le> lateral (calculate_g_forces now t) \<and> lateral (calculate_g_forces now t) \<le> 3
   \<and> - 1 \<le> vertical (calculate_g_forces now t) \<and> vertical (calculate_g_forces now t) \<le> 4
   \<and> longitudinal (calculate_g_forces now (t\<lparr> accel_z := - 1000 \<rparr>)) = 3
   \<and> - 3 \<le> longitudinal (current_gforces (ui_state (process_decoded_packet wfile now f app)))
   \<and> longitudinal (current_gforces (ui_state (process_decoded_packet wfile now f app))) \<le> 3
   \<and> - 3 \<le> lateral (current_gforces (ui_state (process_decoded_packet wfile now f app)))
   \<and> lateral (current_gforces (ui_state (process_decoded_packet wfile now f app))) \<le> 3
   \<and> - 1 \<le> vertical (current_gforces (ui_state (process_decoded_packet wfile now f app)))
   \<and> vertical (current_gforces (ui_state (process_decoded_packet wfile now f app))) \<le> 4"
proof -
  have l: "- 3 \<le> round_to_places (std_max (- 3) (std_min 3 v)) 3
         \<and> round_to_places (std_max (- 3) (std_min 3 v)) 3 \<le> 3" for v
    using clamped_rounded_range [of "- 3" 3 v] by simp
  have v: "- 1 \<le> round_to_places (std_max (- 1) (std_min 4 v)) 3
         \<and> round_to_places (std_max (- 1) (std_min 4 v)) 3 \<le> 4" for v
    using clamped_rounded_range [of "- 1" 4 v] by simp
  have e: "longitudinal (calculate_g_forces now (t\<lparr> accel_z := - 1000 \<rparr>)) = 3"
    by (simp add: calculate_g_forces_sel std_max_def std_min_def round_to_places_def
        std_round_def)
  show ?thesis
    using l v e by (simp add: calculate_g_forces_sel process_decoded_packet_sel)
qed

subsection \<open>C3: undersized datagrams\<close>

text \<open>
  C3. A buffer shorter than 308 bytes is not decoded: both decoders return no frame, and
  the packet handler of the second GUI program leaves its state as it was. A buffer of 308
  bytes or more is decoded to a frame by both decoders.
\<close>

theorem C3_decode_all_or_nothing:
  "(length data < 308 \<longrightarrow>
      parse_telemetry_packet data (int (length data)) = None
      \<and> parse_telemetry_packet_legacy data (int (length data)) = None
      \<and> process_telemetry_packet wfile now data app = app)
   \<and> (308 \<le> length data \<longrightarrow>
      (\<exists>t. parse_telemetry_packet data (int (length data)) = Some t)
      \<and> (\<exists>t. parse_telemetry_packet_legacy data (int (length data)) = Some t))"
  by (simp add: parse_telemetry_packet_def parse_telemetry_packet_legacy_def
      process_telemetry_packet_def Let_def)

text \<open>C3 at a 10-byte datagram and at the 308-byte scenario datagram.\<close>

theorem C3_decode_all_or_nothing_witness:
  "length (replicate 10 (0::byte)) < 308
   \<and> parse_telemetry_packet (replicate 10 0) 10 = None
   \<and> parse_telemetry_packet_legacy (replicate 10 0) 10 = None
   \<and> 308 \<le> length scenario_datagram
   \<and> (\<exists>t. parse_telemetry_packet scenario_datagram 308 = Some t)
   \<and> (\<exists>t. parse_telemetry_packet_legacy scenario_datagram 308 = Some t)"
  using C3_decode_all_or_nothing [of "replicate 10 0"]
    C3_decode_all_or_nothing [of scenario_datagram]
  by (simp add: scenario_datagram_def)

subsection \<open>C4: the extended line\<close>

text \<open>
  C4. For every sample and frame the extended encoder's line is the format
  \<^verbatim>\<open>"%.3f,%.3f,%.3f,%.1f,%.1f,%d,%.2f,%.2f,%.2f,%.2f\n"\<close> applied to the three G-forces,
  \<open>throttle/255*100\<close>, \<open>brake/255*100\<close>, the signed steering byte and the four
  suspension values: ten fields, nine commas, one line break, at the end. A frame decoded
  from a datagram with the bytes 255, 128 and 200 at offsets 232, 233 and 236 has throttle
  255, brake 128 and steering -56, and its line carries \<open>100.0\<close>, \<open>50.2\<close> and \<open>-56\<close>.
\<close>

theorem C4_extended_line:
  "data_string g t = spec_extended_line g t
   \<and> (\<exists>body. data_string g t = body @ [CHR 0x0A] \<and> CHR 0x0A \<notin> set body
          \<and> length (filter (\<lambda>c. c = CHR '','') body) = 9)
   \<and> (parse_telemetry_packet data (int (length data)) = Some t
        \<and> data ! 232 = 255 \<and> data ! 233 = 128 \<and> data ! 236 = 200 \<longrightarrow>
          unat (throttle t) = 255 \<and> unat (brake t) = 128 \<and> sint (steering t) = - 56
          \<and> data_string g t =
               show_fixed 3 (longitudinal g) @ '','' @ show_fixed 3 (lateral g) @ '','' @
               show_fixed 3 (vertical g) @ '',100.0,50.2,-56,'' @
               show_fixed 2 (suspension_fl t) @ '','' @ show_fixed 2 (suspension_fr t) @ '','' @
               show_fixed 2 (suspension_rl t) @ '','' @ show_fixed 2 (suspension_rr t)
               @ [CHR 0x0A])"
proof -
  have eq: "data_string g t = spec_extended_line g t"
    by (simp add: data_string_eq spec_extended_line_eq)
  have fields: "show_fixed 1 (real (unat (255 :: byte)) / 255 * 100) = ''100.0''"
    "show_fixed 1 (real (unat (128 :: byte)) / 255 * 100) = ''50.2''"
    "show_int (sint (200 :: byte)) = ''-56''"
    by (simp_all add: show_eval)
  have scen: "unat (throttle t) = 255 \<and> unat (brake t) = 128 \<and> sint (steering t) = - 56
          \<and> data_string g t =
               show_fixed 3 (longitudinal g) @ '','' @ show_fixed 3 (lateral g) @ '','' @
               show_fixed 3 (vertical g) @ '',100.0,50.2,-56,'' @
               show_fixed 2 (suspension_fl t) @ '','' @ show_fixed 2 (suspension_fr t) @ '','' @
               show_fixed 2 (suspension_rl t) @ '','' @ show_fixed 2 (suspension_rr t)
               @ [CHR 0x0A]"
    if "parse_telemetry_packet data (int (length data)) = Some t"
      and "data ! 232 = 255" "data ! 233 = 128" "data ! 236 = 200"
  proof -
    have t: "throttle t = 255" "brake t = 128" "steering t = 200"
      using parse_telemetry_packet_Some(2-4) [OF that(1)] that(2-4) by simp_all
    show ?thesis
      unfolding data_string_eq t fields by simp
  qed
  show ?thesis
    using eq data_string_shape [of g t] scen by blast
qed

text \<open>C4 at the scenario datagram and the neutral sample.\<close>

theorem C4_extended_line_witness:
  "parse_telemetry_packet scenario_datagram (int (length scenario_datagram)) = Some scenario_frame
   \<and> scenario_datagram ! 232 = 255 \<and> scenario_datagram ! 233 = 128
   \<and> scenario_datagram ! 236 = 200
   \<and> sint (steering scenario_frame) = - 56
   \<and> data_string (neutral_sample 0) scenario_frame =
       ''0.000,0.000,1.000,100.0,50.2,-56,0.50,0.25,0.75,1.00'' @ [CHR 0x0A]"
proof -
  have p: "parse_telemetry_packet scenario_datagram (int (length scenario_datagram))
             = Some scenario_frame"
    using parse_scenario_datagram by (simp add: scenario_datagram_def)
  have b: "scenario_datagram ! 232 = 255" "scenario_datagram ! 233 = 128"
    "scenario_datagram ! 236 = 200"
    by (simp_all add: scenario_datagram_def)
  have z: "show_fixed 3 0 = ''0.000''" "show_fixed 3 1 = ''1.000''"
    "show_fixed 2 (1 / 2) = ''0.50''" "show_fixed 2 (1 / 4) = ''0.25''"
    "show_fixed 2 (3 / 4) = ''0.75''" "show_fixed 2 1 = ''1.00''"
    by (simp_all add: show_eval)
  from C4_extended_line [of "neutral_sample 0" scenario_frame scenario_datagram] p b
  have "sint (steering scenario_frame) = - 56"
    and "data_string (neutral_sample 0) scenario_frame =
           show_fixed 3 (longitudinal (neutral_sample 0)) @ '','' @
           show_fixed 3 (lateral (neutral_sample 0)) @ '','' @
           show_fixed 3 (vertical (neutral_sample 0)) @ '',100.0,50.2,-56,'' @
           show_fixed 2 (suspension_fl scenario_frame) @ '','' @
           show_fixed 2 (suspension_fr scenario_frame) @ '','' @
           show_fixed 2 (suspension_rl scenario_frame) @ '','' @
           show_fixed 2 (suspension_rr scenario_frame) @ [CHR 0x0A]"
    by blast+
  then show ?thesis
    using p b by (simp add: neutral_sample_def scenario_frame_def z)
qed

subsection \<open>C5: the activity state\<close>

text \<open>
  C5. The frame handler publishes a frame as active exactly when \<open>speed * 3.6 > 1.0\<close> or
  the engine speed is above 1000, both comparisons strict: a frame with
  \<open>speed * 3.6 = 1.0\<close> and 1000 rpm is idle, and so is a frame with one of the two at
  its bound and the other below. An active frame is published with the computed sample,
  an idle one with the neutral sample. The handler runs on the frame decoded from the
  datagram; the console loop sends the line of the sample chosen the same way.
\<close>

theorem C5_activity_state:
  "(is_active (ui_state (process_decoded_packet wfile now t app))
      \<longleftrightarrow> speed t * 3.6 > 1.0 \<or> current_engine_rpm t > 1000)
   \<and> (speed t * 3.6 = 1.0 \<and> current_engine_rpm t = 1000
        \<longrightarrow> \<not> is_active (ui_state (process_decoded_packet wfile now t app)))
   \<and> (speed t * 3.6 = 1.0 \<and> current_engine_rpm t < 1000
        \<longrightarrow> \<not> is_active (ui_state (process_decoded_packet wfile now t app)))
   \<and> (speed t * 3.6 < 1.0 \<and> current_engine_rpm t = 1000
        \<longrightarrow> \<not> is_active (ui_state (process_decoded_packet wfile now t app)))
   \<and> current_gforces (ui_state (process_decoded_packet wfile now t app))
       = (if speed t * 3.6 > 1.0 \<or> current_engine_rpm t > 1000 then calculate_g_forces now t
          else \<lparr> longitudinal = 0, lateral = 0, vertical = 1, timestamp = now \<rparr>)
   \<and> (parse_telemetry_packet data (int (length data)) = Some t \<longrightarrow>
        process_telemetry_packet wfile now data app = process_decoded_packet wfile now t app)
   \<and> (parse_telemetry_packet_legacy data (int (length data)) = Some t' \<and> handle_valid (run_serial st)
        \<longrightarrow> written (run_serial
                (run_pass \<lparr> received = Datagram data, clock = now, WriteFile = wfile \<rparr> st))
            = written (run_serial st) @
              [data_string_legacy
                 (if speed t' * 3.6 > 1.0 \<or> current_engine_rpm t' > 1000
                  then calculate_g_forces now t'
                  else \<lparr> longitudinal = 0, lateral = 0, vertical = 1, timestamp = now \<rparr>)])"
  by (simp add: process_decoded_packet_sel process_telemetry_packet_decoded run_pass_decoded
      send_to_arduino_legacy_def write_line_simps)

text \<open>
  C5 at frames on and around the two bounds, and at a datagram whose engine-speed field is
  the binary32 pattern of 1000 and whose velocity is zero.
\<close>

theorem C5_activity_state_witness:
  "speed (boundary_frame (5 / 18) 1000) * 3.6 = 1.0
   \<and> current_engine_rpm (boundary_frame (5 / 18) 1000) = 1000
   \<and> \<not> is_active (ui_state (process_decoded_packet write_all 0
           (boundary_frame (5 / 18) 1000) (fresh_gui open_port)))
   \<and> current_engine_rpm (boundary_frame (5 / 18) 999) < 1000
   \<and> \<not> is_active (ui_state (process_decoded_packet write_all 0
           (boundary_frame (5 / 18) 999) (fresh_gui open_port)))
   \<and> speed (boundary_frame (1 / 4) 1000) * 3.6 < 1.0
   \<and> \<not> is_active (ui_state (process_decoded_packet write_all 0
           (boundary_frame (1 / 4) 1000) (fresh_gui open_port)))
   \<and> is_active (ui_state (process_decoded_packet write_all 0
           (boundary_frame (5 / 18) 1001) (fresh_gui open_port)))
   \<and> is_active (ui_state (process_decoded_packet write_all 0
           (boundary_frame (1 / 3) 1000) (fresh_gui open_port)))
   \<and> parse_telemetry_packet rest_datagram (int (length rest_datagram)) = Some rest_frame
   \<and> \<not> is_active (ui_state (process_telemetry_packet write_all 0 rest_datagram
           (fresh_gui open_port)))
   \<and> parse_telemetry_packet_legacy rest_datagram (int (length rest_datagram))
       = Some rest_frame_legacy
   \<and> handle_valid (run_serial (fresh_run open_port))
   \<and> written (run_serial (run_pass
           \<lparr> received = Datagram rest_datagram, clock = 0, WriteFile = write_all \<rparr>
           (fresh_run open_port)))
       = [''0.000,0.000,1.000'' @ [CHR 0x5C, CHR ''n'']]"
  using
    C5_activity_state [of write_all 0 "boundary_frame (5 / 18) 1000" "fresh_gui open_port"]
    C5_activity_state [of write_all 0 "boundary_frame (5 / 18) 999" "fresh_gui open_port"]
    C5_activity_state [of write_all 0 "boundary_frame (1 / 4) 1000" "fresh_gui open_port"]
    C5_activity_state [of write_all 0 "boundary_frame (5 / 18) 1001" "fresh_gui open_port"]
    C5_activity_state [of write_all 0 "boundary_frame (1 / 3) 1000" "fresh_gui open_port"]
    C5_activity_state [of write_all 0 rest_frame "fresh_gui open_port" rest_datagram
      rest_frame_legacy "fresh_run open_port"]
    parse_rest_datagram
  by (simp add: boundary_frame_def rest_frame_def rest_frame_legacy_def fresh_run_def
      open_port_def neutral_legacy_line)

subsection \<open>C6: the packet counter\<close>

text \<open>
  C6, evaluated at a 10-byte datagram. The worker thread of the second GUI program goes
  on with the passes that follow as if the datagram had not arrived: the packet handler
  returns at the failed decode and the packet counter is what it was. The loop of the
  console program goes on with the counter incremented.
\<close>

theorem C6_worker_thread_skips_count:
  "telemetry_worker_thread
      (\<lparr> received = Datagram (replicate 10 0), clock = now, WriteFile = wfile \<rparr> # ps) app
     = telemetry_worker_thread ps app
   \<and> packet_count (ui_state (process_telemetry_packet wfile now (replicate 10 0) app))
     = packet_count (ui_state app)
   \<and> run_loop (\<lparr> received = Datagram (replicate 10 0), clock = now, WriteFile = wfile \<rparr> # ps) st
     = run_loop ps (st\<lparr> run_packet_count := run_packet_count st + 1 \<rparr>)"
  by (simp add: process_telemetry_packet_def parse_telemetry_packet_def run_pass_def
      parse_telemetry_packet_legacy_def)

subsection \<open>C7: the legacy line\<close>

text \<open>
  C7, evaluated. The legacy encoder's line for the sample \<open>{1, 0, 1}\<close> is
  \<open>1.000,0.000,1.000\<close> followed by a backslash and the letter \<open>n\<close>; no legacy line
  contains the line-break character 10, and none equals the line of the format
  \<^verbatim>\<open>"%.3f,%.3f,%.3f\n"\<close>.
\<close>

theorem C7_legacy_line_without_line_break:
  "data_string_legacy \<lparr> longitudinal = 1, lateral = 0, vertical = 1, timestamp = now \<rparr>
     = ''1.000,0.000,1.000'' @ [CHR 0x5C, CHR ''n'']
   \<and> CHR 0x0A \<notin> set (data_string_legacy g)
   \<and> data_string_legacy g \<noteq> spec_legacy_line g"
proof -
  have "data_string_legacy \<lparr> longitudinal = 1, lateral = 0, vertical = 1, timestamp = now \<rparr>
     = ''1.000,0.000,1.000'' @ [CHR 0x5C, CHR ''n'']"
    unfolding data_string_legacy_eq by (simp add: show_eval)
  moreover have "CHR 0x0A \<notin> set (data_string_legacy g)"
    by (simp add: data_string_legacy_eq show_fixed_no_separator)
  moreover have "data_string_legacy g \<noteq> spec_legacy_line g"
    by (simp add: data_string_legacy_eq spec_legacy_line_eq)
  ultimately show ?thesis by blast
qed

subsection \<open>C8: the same input gives the same line\<close>

text \<open>
  C8. Encoding is a function of the sample and the frame alone: two sends of the same
  sample and frame hand the same bytes to \<^verbatim>\<open>WriteFile\<close> twice, whatever the port held
  before and however the two writes end (both encoders).
\<close>

theorem C8_same_input_same_line:
  "handle_valid port \<longrightarrow>
     written (snd (send_to_arduino wfile2 g t (snd (send_to_arduino wfile1 g t port))))
       = written port @ [data_string g t, data_string g t]
     \<and> written (snd (send_to_arduino_legacy wfile2 g
                      (snd (send_to_arduino_legacy wfile1 g port))))
       = written port @ [data_string_legacy g, data_string_legacy g]"
  by (simp add: send_to_arduino_def send_to_arduino_legacy_def write_line_simps)

text \<open>C8 at the scenario frame, the first write failing and the second succeeding.\<close>

theorem C8_same_input_same_line_witness:
  "handle_valid open_port
   \<and> written (snd (send_to_arduino write_all (neutral_sample 0) scenario_frame
         (snd (send_to_arduino write_fails (neutral_sample 0) scenario_frame open_port))))
       = [''0.000,0.000,1.000,100.0,50.2,-56,0.50,0.25,0.75,1.00'' @ [CHR 0x0A],
          ''0.000,0.000,1.000,100.0,50.2,-56,0.50,0.25,0.75,1.00'' @ [CHR 0x0A]]"
  using C8_same_input_same_line [of open_port write_all "neutral_sample 0" scenario_frame
      write_fails]
  by (simp add: open_port_def scenario_line)

subsection \<open>C9: idle cycles\<close>

text \<open>
  C9. In an idle cycle of the second GUI program with the serial handle valid, the line
  handed to \<^verbatim>\<open>WriteFile\<close> starts with the neutral sample \<open>0.000,0.000,1.000\<close> and
  goes on with the throttle and brake percentages, the steering and the four suspension
  values read from the datagram of this cycle; the published sample is the neutral one and
  the published frame is the decoded one.
\<close>

theorem C9_idle_line_keeps_actuators:
  "parse_telemetry_packet data (int (length data)) = Some t
   \<and> \<not> (speed t * 3.6 > 1.0 \<or> current_engine_rpm t > 1000)
   \<and> handle_valid (serial app) \<longrightarrow>
     written (serial (process_telemetry_packet wfile now data app))
       = written (serial app) @
         [''0.000,0.000,1.000,'' @
          show_fixed 1 (real (unat (data ! 232)) / 255 * 100) @ '','' @
          show_fixed 1 (real (unat (data ! 233)) / 255 * 100) @ '','' @
          show_int (sint (data ! 236)) @ '','' @
          show_fixed 2 (float_at data 17) @ '','' @ show_fixed 2 (float_at data 18) @ '','' @
          show_fixed 2 (float_at data 19) @ '','' @ show_fixed 2 (float_at data 20) @
          [CHR 0x0A]]
     \<and> current_gforces (ui_state (process_telemetry_packet wfile now data app))
         = \<lparr> longitudinal = 0, lateral = 0, vertical = 1, timestamp = now \<rparr>
     \<and> current_telemetry (ui_state (process_telemetry_packet wfile now data app)) = t"
proof (intro impI, elim conjE)
  assume p: "parse_telemetry_packet data (int (length data)) = Some t"
    and idle: "\<not> (speed t * 3.6 > 1.0 \<or> current_engine_rpm t > 1000)"
    and h: "handle_valid (serial app)"
  have line: "data_string \<lparr> longitudinal = 0, lateral = 0, vertical = 1, timestamp = now \<rparr> t
      = ''0.000,0.000,1.000,'' @
          show_fixed 1 (real (unat (data ! 232)) / 255 * 100) @ '','' @
          show_fixed 1 (real (unat (data ! 233)) / 255 * 100) @ '','' @
          show_int (sint (data ! 236)) @ '','' @
          show_fixed 2 (float_at data 17) @ '','' @ show_fixed 2 (float_at data 18) @ '','' @
          show_fixed 2 (float_at data 19) @ '','' @ show_fixed 2 (float_at data 20) @
          [CHR 0x0A]"
    by (simp add: data_string_eq neutral_fields parse_telemetry_packet_Some(2-4) [OF p]
        parse_telemetry_packet_suspension [OF p])
  show "written (serial (process_telemetry_packet wfile now data app))
       = written (serial app) @
         [''0.000,0.000,1.000,'' @
          show_fixed 1 (real (unat (data ! 232)) / 255 * 100) @ '','' @
          show_fixed 1 (real (unat (data ! 233)) / 255 * 100) @ '','' @
          show_int (sint (data ! 236)) @ '','' @
          show_fixed 2 (float_at data 17) @ '','' @ show_fixed 2 (float_at data 18) @ '','' @
          show_fixed 2 (float_at data 19) @ '','' @ show_fixed 2 (float_at data 20) @
          [CHR 0x0A]]
     \<and> current_gforces (ui_state (process_telemetry_packet wfile now data app))
         = \<lparr> longitudinal = 0, lateral = 0, vertical = 1, timestamp = now \<rparr>
     \<and> current_telemetry (ui_state (process_telemetry_packet wfile now data app)) = t"
    unfolding process_telemetry_packet_decoded [OF p] line [symmetric]
    using idle h
    by (simp add: process_decoded_packet_sel send_to_arduino_def write_line_simps)
qed

text \<open>C9 at the scenario datagram, which is idle (zero velocity and engine speed).\<close>

theorem C9_idle_line_keeps_actuators_witness:
  "parse_telemetry_packet scenario_datagram (int (length scenario_datagram)) = Some scenario_frame
   \<and> \<not> (speed scenario_frame * 3.6 > 1.0 \<or> current_engine_rpm scenario_frame > 1000)
   \<and> handle_valid (serial (fresh_gui open_port))
   \<and> written (serial (process_telemetry_packet write_all 0 scenario_datagram
         (fresh_gui open_port)))
       = [''0.000,0.000,1.000,100.0,50.2,-56,0.50,0.25,0.75,1.00'' @ [CHR 0x0A]]
   \<and> current_telemetry (ui_state (process_telemetry_packet write_all 0 scenario_datagram
         (fresh_gui open_port))) = scenario_frame"
proof -
  have p: "parse_telemetry_packet scenario_datagram (int (length scenario_datagram))
             = Some scenario_frame"
    using parse_scenario_datagram by (simp add: scenario_datagram_def)
  have i: "\<not> (speed scenario_frame * 3.6 > 1.0 \<or> current_engine_rpm scenario_frame > 1000)"
    by (simp add: scenario_frame_def)
  have h: "handle_valid (serial (fresh_gui open_port))"
    by (simp add: fresh_gui_def open_port_def)
  have b: "scenario_datagram ! 232 = 255" "scenario_datagram ! 233 = 128"
    "scenario_datagram ! 236 = 200"
    by (simp_all add: scenario_datagram_def)
  have f: "show_fixed 1 (real (unat (255 :: byte)) / 255 * 100) = ''100.0''"
    "show_fixed 1 (real (unat (128 :: byte)) / 255 * 100) = ''50.2''"
    "show_int (sint (200 :: byte)) = ''-56''"
    "show_fixed 2 (1 / 2) = ''0.50''" "show_fixed 2 (1 / 4) = ''0.25''"
    "show_fixed 2 (3 / 4) = ''0.75''" "show_fixed 2 1 = ''1.00''"
    by (simp_all add: show_eval)
  have w: "written (serial (fresh_gui open_port)) = []"
    by (simp add: fresh_gui_def open_port_def)
  from C9_idle_line_keeps_actuators [of scenario_datagram scenario_frame "fresh_gui open_port"
      write_all 0] p i h
  show ?thesis
    unfolding b float_at_scenario f w by simp
qed

subsection \<open>C10: the result of a send\<close>

text \<open>
  C10. Sending reports success exactly when the serial handle is valid, \<^verbatim>\<open>WriteFile\<close>
  succeeds and the number of bytes it reports equals the length of the line (both
  encoders). With an invalid handle the result is failure and nothing is handed to
  \<^verbatim>\<open>WriteFile\<close>: the port is unchanged. With a valid handle exactly the encoded line is
  handed over.
\<close>

theorem C10_send_success_iff:
  "(fst (send_to_arduino wfile g t port) \<longleftrightarrow>
      handle_valid port
      \<and> (\<exists>n. wfile (data_string g t) = Some n \<and> n = length (data_string g t)))
   \<and> (fst (send_to_arduino_legacy wfile g port) \<longleftrightarrow>
      handle_valid port
      \<and> (\<exists>n. wfile (data_string_legacy g) = Some n \<and> n = length (data_string_legacy g)))
   \<and> (\<not> handle_valid port \<longrightarrow>
      send_to_arduino wfile g t port = (False, port)
      \<and> send_to_arduino_legacy wfile g port = (False, port))
   \<and> (handle_valid port \<longrightarrow>
      written (snd (send_to_arduino wfile g t port)) = written port @ [data_string g t]
      \<and> written (snd (send_to_arduino_legacy wfile g port))
          = written port @ [data_string_legacy g])"
  by (simp add: send_to_arduino_def send_to_arduino_legacy_def write_line_simps)

text \<open>
  C10 at a closed port, and at an open port with a \<^verbatim>\<open>WriteFile\<close> that writes
  everything, one that writes nothing and one that fails.
\<close>

theorem C10_send_success_iff_witness:
  "\<not> handle_valid closed_port
   \<and> send_to_arduino write_all (neutral_sample 0) scenario_frame closed_port
       = (False, closed_port)
   \<and> send_to_arduino_legacy write_all (neutral_sample 0) closed_port = (False, closed_port)
   \<and> handle_valid open_port
   \<and> fst (send_to_arduino write_all (neutral_sample 0) scenario_frame open_port)
   \<and> \<not> fst (send_to_arduino write_nothing (neutral_sample 0) scenario_frame open_port)
   \<and> \<not> fst (send_to_arduino write_fails (neutral_sample 0) scenario_frame open_port)
   \<and> written (snd (send_to_arduino write_fails (neutral_sample 0) scenario_frame open_port))
       = [data_string (neutral_sample 0) scenario_frame]"
  using C10_send_success_iff [of write_all "neutral_sample 0" scenario_frame closed_port]
    C10_send_success_iff [of write_all "neutral_sample 0" scenario_frame open_port]
    C10_send_success_iff [of write_nothing "neutral_sample 0" scenario_frame open_port]
    C10_send_success_iff [of write_fails "neutral_sample 0" scenario_frame open_port]
  by (simp add: closed_port_def open_port_def write_all_def write_nothing_def write_fails_def
      data_string_nonempty)

end
